theory Spec2Isabelle
  imports Complex_Main "HOL-Library.Multiset" "HOL-Library.Sublist" "HOL-Library.Code_Target_Nat"
begin

section \<open>Bytes, exceptions and the struct module\<close>

text \<open>
  A Python \<^verbatim>\<open>bytes\<close> value is a \<^typ>\<open>string\<close>: a list of \<^typ>\<open>char\<close>, each one byte.
  \<^term>\<open>of_char\<close> reads a byte as a number in 0..255 and \<^term>\<open>char_of\<close> writes one.
  A Python \<^verbatim>\<open>str\<close> that was decoded from UTF-8 is kept as its UTF-8 bytes.

  Every exception the modelled code can raise is a value of \<open>error\<close>; a function that
  can raise returns \<open>error + 'a\<close>, with \<open>Inl\<close> for the exception.
\<close>

datatype error =
    IndexError \<comment> \<open>index out of range (list or bytes)\<close>
  | AttributeError \<comment> \<open>attribute access on None\<close>
  | KeyError \<comment> \<open>missing dict key\<close>
  | StructError \<comment> \<open>struct.error: buffer too short or value out of range\<close>
  | OverflowError \<comment> \<open>int too big to convert\<close>
  | NameError string \<comment> \<open>name is not defined\<close>
  | IntLiteralError \<comment> \<open>ValueError of int('', 2)\<close>
  | BadSignature \<comment> \<open>ValueError raised on a wrong signature\<close>
  | ShortRead nat nat \<comment> \<open>ValueError of decode_v0: expected, got\<close>
  | UnknownAlgorithm nat \<comment> \<open>ValueError of decode_v3\<close>
  | UnknownVersion nat \<comment> \<open>RuntimeError of universal_decode\<close>
  | UnicodeDecodeError
  | TypeError \<comment> \<open>unpacking None into a tuple\<close>
  | ByteRangeError \<comment> \<open>ValueError of bytes([n]) with n outside 0..255\<close>
  | ZlibError \<comment> \<open>zlib.error\<close>

text \<open>Little-endian integers, as \<^verbatim>\<open>struct\<close> packs them with the format prefix \<^verbatim>\<open><\<close>.\<close>

fun le_nat :: "string \<Rightarrow> nat" where
  "le_nat [] = 0"
| "le_nat (b # bs) = of_char b + 256 * le_nat bs"

fun nat_le :: "nat \<Rightarrow> nat \<Rightarrow> string" where
  "nat_le 0 n = []"
| "nat_le (Suc k) n = char_of (n mod 256) # nat_le k (n div 256)"

text \<open>\<^verbatim>\<open>struct.pack('<B' | '<H' | '<I' | '<Q', n)\<close> for \<open>k\<close> = 1, 2, 4, 8 bytes: a value that
  does not fit raises \<^verbatim>\<open>struct.error\<close>.\<close>

definition pack_le :: "nat \<Rightarrow> nat \<Rightarrow> error + string" where
  "pack_le k n = (if n < 256 ^ k then Inr (nat_le k n) else Inl StructError)"

text \<open>\<^verbatim>\<open>struct.unpack_from(fmt, buf, off)\<close> for one \<open>k\<close>-byte field: the buffer must hold
  \<open>k\<close> bytes from \<open>off\<close> on.\<close>

definition unpack_from_le :: "nat \<Rightarrow> string \<Rightarrow> nat \<Rightarrow> error + nat" where
  "unpack_from_le k buf off =
     (if off + k \<le> length buf then Inr (le_nat (take k (drop off buf))) else Inl StructError)"

section \<open>The Huffman codec\<close>

subsection \<open>Nodes and their order\<close>

text \<open>
  \<^verbatim>\<open>class Node\<close> of archiver_huffman.py and \<^verbatim>\<open>class HNode\<close> of universal_decoder.py are the
  same class under two names: fields \<^verbatim>\<open>freq\<close>, \<^verbatim>\<open>symbol\<close>, \<^verbatim>\<open>left\<close>, \<^verbatim>\<open>right\<close> and the same
  \<^verbatim>\<open>__lt__\<close>. A reference that may be \<^verbatim>\<open>None\<close> is a \<open>node\<close> that may be \<open>NoneNode\<close>.
\<close>

datatype node = NoneNode | Node (freq: nat) (symbol: "char option") (left: node) (right: node)

text \<open>\<^verbatim>\<open>(self.symbol or 0)\<close>: \<^verbatim>\<open>None\<close> and the byte 0 both count as 0.\<close>

definition symbol_or_0 :: "node \<Rightarrow> nat" where
  "symbol_or_0 n = (case symbol n of None \<Rightarrow> 0 | Some c \<Rightarrow> of_char c)"

definition node_lt :: "node \<Rightarrow> node \<Rightarrow> bool" where
  "node_lt self other =
     (if freq self = freq other then symbol_or_0 self < symbol_or_0 other
      else freq self < freq other)"

subsection \<open>The heapq module\<close>

text \<open>
  The functions of Python's \<^verbatim>\<open>heapq\<close> that the code calls, after heapq.py, on a list of
  nodes compared with \<open>node_lt\<close>. Every index they read is inside the list: \<^verbatim>\<open>_siftdown\<close>
  is called with \<open>pos < len(heap)\<close>, \<^verbatim>\<open>_siftup\<close> on a non-empty heap with a position in it.
\<close>

function siftdown_loop :: "node list \<Rightarrow> node \<Rightarrow> nat \<Rightarrow> nat \<Rightarrow> node list" where
  "siftdown_loop heap newitem startpos pos =
     (if pos > startpos then
        (let parentpos = (pos - 1) div 2;
             parent = heap ! parentpos
         in if node_lt newitem parent
            then siftdown_loop (heap[pos := parent]) newitem startpos parentpos
            else heap[pos := newitem])
      else heap[pos := newitem])"
  by pat_completeness auto
termination
  by (relation "measure (\<lambda>(heap, newitem, startpos, pos). pos)") auto

definition siftdown :: "node list \<Rightarrow> nat \<Rightarrow> nat \<Rightarrow> node list" where
  "siftdown heap startpos pos = siftdown_loop heap (heap ! pos) startpos pos"

text \<open>The loop of \<^verbatim>\<open>_siftup\<close>: the smaller child moves up until \<open>pos\<close> is a leaf. It returns
  the heap and the position of the hole.\<close>

function siftup_loop :: "node list \<Rightarrow> nat \<Rightarrow> node list \<times> nat" where
  "siftup_loop heap pos =
     (let endpos = length heap; childpos = 2 * pos + 1
      in if childpos < endpos then
           (let rightpos = childpos + 1;
                childpos' = (if rightpos < endpos \<and> \<not> node_lt (heap ! childpos) (heap ! rightpos)
                             then rightpos else childpos)
            in siftup_loop (heap[pos := heap ! childpos']) childpos')
         else (heap, pos))"
  by pat_completeness auto
termination
  by (relation "measure (\<lambda>(heap, pos). length heap - pos)") (auto split: if_splits)

definition siftup :: "node list \<Rightarrow> nat \<Rightarrow> node list" where
  "siftup heap pos =
     (let newitem = heap ! pos;
          (heap', pos') = siftup_loop heap pos
      in siftdown (heap'[pos' := newitem]) pos pos')"

definition heapify :: "node list \<Rightarrow> node list" where
  "heapify x = fold (\<lambda>i h. siftup h i) (rev [0..<length x div 2]) x"

definition heappush :: "node list \<Rightarrow> node \<Rightarrow> node list" where
  "heappush heap item = siftdown (heap @ [item]) 0 (length heap)"

definition heappop :: "node list \<Rightarrow> error + (node \<times> node list)" where
  "heappop heap =
     (if heap = [] then Inl IndexError
      else let lastelt = last heap; heap' = butlast heap
           in if heap' \<noteq> [] then Inr (heap' ! 0, siftup (heap'[0 := lastelt]) 0)
              else Inr (lastelt, heap'))"

declare siftdown_loop.simps [simp del] siftup_loop.simps [simp del]

lemma length_siftdown_loop [simp]:
  "length (siftdown_loop heap newitem startpos pos) = length heap"
  by (induction heap newitem startpos pos rule: siftdown_loop.induct)
     (subst siftdown_loop.simps, simp add: Let_def)

lemma length_siftdown [simp]: "length (siftdown heap startpos pos) = length heap"
  by (simp add: siftdown_def)

lemma length_siftup_loop [simp]: "length (fst (siftup_loop heap pos)) = length heap"
  by (induction heap pos rule: siftup_loop.induct)
     (subst siftup_loop.simps, simp add: Let_def)

lemma length_siftup [simp]: "length (siftup heap pos) = length heap"
proof -
  obtain h p where hp: "siftup_loop heap pos = (h, p)" by (cases "siftup_loop heap pos")
  have "length h = length heap" using length_siftup_loop[of heap pos] hp by simp
  then show ?thesis by (simp add: siftup_def hp)
qed

lemma length_heappush [simp]: "length (heappush heap item) = Suc (length heap)"
  by (simp add: heappush_def)

lemma length_heappop:
  "heappop heap = Inr (x, heap') \<Longrightarrow> length heap' = length heap - 1"
  by (cases heap rule: rev_cases) (auto simp: heappop_def Let_def split: if_splits)

subsection \<open>Building the tree\<close>

text \<open>The \<^verbatim>\<open>while len(heap) > 1\<close> loop that both \<^verbatim>\<open>build_huffman_tree\<close> functions share.\<close>

function merge_loop :: "node list \<Rightarrow> error + node list" where
  "merge_loop heap =
     (if length heap > 1 then
        (case heappop heap of
           Inl e \<Rightarrow> Inl e
         | Inr (a, heap1) \<Rightarrow>
             (case heappop heap1 of
                Inl e \<Rightarrow> Inl e
              | Inr (b, heap2) \<Rightarrow>
                  merge_loop (heappush heap2 (Node (freq a + freq b) None a b))))
      else Inr heap)"
  by pat_completeness auto
termination
  by (relation "measure length") (auto dest!: length_heappop)

declare merge_loop.simps [simp del]

text \<open>A frequency table is a Python dict, which keeps its keys in insertion order:
  an association list in that order.\<close>

type_synonym freqs = "(char \<times> nat) list"

definition leaves_of :: "freqs \<Rightarrow> node list" where
  "leaves_of fs = map (\<lambda>(s, fr). Node fr (Some s) NoneNode NoneNode) fs"

text \<open>\<^verbatim>\<open>build_huffman_tree\<close> of archiver_huffman.py. With an empty table the last line,
  \<^verbatim>\<open>return heap[0]\<close>, reads an empty list.\<close>

definition build_huffman_tree :: "freqs \<Rightarrow> error + node" where
  "build_huffman_tree fs =
     (let heap = heapify (leaves_of fs)
      in if length heap = 1 then
           (let only = heap ! 0 in Inr (Node (freq only) None only NoneNode))
         else
           (case merge_loop heap of
              Inl e \<Rightarrow> Inl e
            | Inr heap' \<Rightarrow> (case heap' of [] \<Rightarrow> Inl IndexError | x # _ \<Rightarrow> Inr x)))"

text \<open>\<^verbatim>\<open>build_huffman_tree\<close> of universal_decoder.py: the same, but an empty table gives
  \<^verbatim>\<open>None\<close>.\<close>

definition ud_build_huffman_tree :: "freqs \<Rightarrow> error + node" where
  "ud_build_huffman_tree fs =
     (let heap = heapify (leaves_of fs)
      in if length heap = 0 then Inr NoneNode
         else if length heap = 1 then
           (let only = heap ! 0 in Inr (Node (freq only) None only NoneNode))
         else
           (case merge_loop heap of
              Inl e \<Rightarrow> Inl e
            | Inr heap' \<Rightarrow> (case heap' of [] \<Rightarrow> Inl IndexError | x # _ \<Rightarrow> Inr x)))"

subsection \<open>Codes\<close>

text \<open>A bit string (a Python \<^verbatim>\<open>str\<close> of the characters 0 and 1) is a list of booleans,
  \<open>True\<close> for the character 1. \<^verbatim>\<open>build_codes\<close> fills the dict \<^verbatim>\<open>codebook\<close> in place and returns
  it; reading \<^verbatim>\<open>node.symbol\<close> of \<^verbatim>\<open>None\<close> raises.\<close>

type_synonym bits = "bool list"

fun build_codes :: "node \<Rightarrow> bits \<Rightarrow> (char \<rightharpoonup> bits) \<Rightarrow> error + (char \<rightharpoonup> bits)" where
  "build_codes NoneNode pfx codebook = Inl AttributeError"
| "build_codes (Node f (Some s) l r) pfx codebook =
     Inr (codebook(s \<mapsto> (if pfx = [] then [False] else pfx)))"
| "build_codes (Node f None l r) pfx codebook =
     (case build_codes l (pfx @ [False]) codebook of
        Inl e \<Rightarrow> Inl e
      | Inr codebook' \<Rightarrow> build_codes r (pfx @ [True]) codebook')"

text \<open>\<^verbatim>\<open>Counter(data)\<close>: the count of every byte, keys in the order of first occurrence.\<close>

fun counter_add :: "freqs \<Rightarrow> char \<Rightarrow> freqs" where
  "counter_add [] b = [(b, 1)]"
| "counter_add ((s, c) # rest) b =
     (if s = b then (s, c + 1) # rest else (s, c) # counter_add rest b)"

definition Counter :: "string \<Rightarrow> freqs" where
  "Counter data = foldl counter_add [] data"

text \<open>\<^verbatim>\<open>"".join(codebook[b] for b in data)\<close>.\<close>

fun join_codes :: "(char \<rightharpoonup> bits) \<Rightarrow> string \<Rightarrow> error + bits" where
  "join_codes codebook [] = Inr []"
| "join_codes codebook (b # data) =
     (case codebook b of
        None \<Rightarrow> Inl KeyError
      | Some code \<Rightarrow>
          (case join_codes codebook data of Inl e \<Rightarrow> Inl e | Inr rest \<Rightarrow> Inr (code @ rest)))"

text \<open>\<^verbatim>\<open>int(bits, 2)\<close> raises ValueError on the empty string; \<^verbatim>\<open>n.to_bytes(k, "big")\<close> raises
  OverflowError when \<open>n\<close> does not fit.\<close>

definition bits_val :: "bits \<Rightarrow> nat" where
  "bits_val bs = foldl (\<lambda>acc b. 2 * acc + (if b then 1 else 0)) 0 bs"

definition int_base2 :: "bits \<Rightarrow> error + nat" where
  "int_base2 bs = (if bs = [] then Inl IntLiteralError else Inr (bits_val bs))"

definition to_bytes_big :: "nat \<Rightarrow> nat \<Rightarrow> error + string" where
  "to_bytes_big k n = (if n < 256 ^ k then Inr (rev (nat_le k n)) else Inl OverflowError)"

text \<open>The concatenated codes of \<open>data\<close>: the variable \<^verbatim>\<open>bits\<close> of \<^verbatim>\<open>huffman_encode\<close> before the
  padding is added.\<close>

definition huffman_code_bits :: "string \<Rightarrow> error + bits" where
  "huffman_code_bits data =
     (case build_huffman_tree (Counter data) of
        Inl e \<Rightarrow> Inl e
      | Inr tree \<Rightarrow>
          (case build_codes tree [] Map.empty of
             Inl e \<Rightarrow> Inl e
           | Inr codebook \<Rightarrow> join_codes codebook data))"

text \<open>The service blob: padding and symbol count as u16, then a (u8, u32) pair per symbol.\<close>

fun pack_table :: "freqs \<Rightarrow> error + string" where
  "pack_table [] = Inr []"
| "pack_table ((s, fr) # rest) =
     (case pack_le 4 fr of
        Inl e \<Rightarrow> Inl e
      | Inr w \<Rightarrow> (case pack_table rest of Inl e \<Rightarrow> Inl e | Inr t \<Rightarrow> Inr (s # w @ t)))"

definition huffman_encode :: "string \<Rightarrow> error + (string \<times> string)" where
  "huffman_encode data =
     (case huffman_code_bits data of
        Inl e \<Rightarrow> Inl e
      | Inr bits0 \<Rightarrow>
          (let padding = (8 - length bits0 mod 8) mod 8;
               bits1 = bits0 @ replicate padding False
           in case int_base2 bits1 of
                Inl e \<Rightarrow> Inl e
              | Inr v \<Rightarrow>
                  (case to_bytes_big (length bits1 div 8) v of
                     Inl e \<Rightarrow> Inl e
                   | Inr encoded \<Rightarrow>
                       (case pack_le 2 padding of
                          Inl e \<Rightarrow> Inl e
                        | Inr p \<Rightarrow>
                            (case pack_le 2 (length (Counter data)) of
                               Inl e \<Rightarrow> Inl e
                             | Inr c \<Rightarrow>
                                 (case pack_table (Counter data) of
                                    Inl e \<Rightarrow> Inl e
                                  | Inr t \<Rightarrow> Inr (encoded, p @ c @ t)))))))"

subsection \<open>Decoding\<close>

text \<open>\<^verbatim>\<open>freqs[sym] = fr\<close>: a key that is there keeps its place, a new key goes last.\<close>

fun dict_set :: "freqs \<Rightarrow> char \<Rightarrow> nat \<Rightarrow> freqs" where
  "dict_set [] k v = [(k, v)]"
| "dict_set ((k', v') # rest) k v =
     (if k' = k then (k', v) # rest else (k', v') # dict_set rest k v)"

text \<open>The table loop of both decoders: \<^verbatim>\<open>num_syms\<close> times
  \<^verbatim>\<open>sym, fr = struct.unpack_from("<BI", service, offset); offset += 5; freqs[sym] = fr\<close>.
  \<^verbatim>\<open>unpack_from\<close> raises \<^verbatim>\<open>struct.error\<close> unless five bytes are left at the offset.\<close>

fun read_table :: "nat \<Rightarrow> string \<Rightarrow> nat \<Rightarrow> freqs \<Rightarrow> error + freqs" where
  "read_table 0 service off fs = Inr fs"
| "read_table (Suc n) service off fs =
     (if off + 5 \<le> length service
      then read_table n service (off + 5)
             (dict_set fs (service ! off) (le_nat (take 4 (drop (off + 1) service))))
      else Inl StructError)"

text \<open>\<^verbatim>\<open>bin(n)[2:]\<close>, \<^verbatim>\<open>s.zfill(w)\<close> and the bit string
  \<^verbatim>\<open>bin(int.from_bytes(encoded, "big"))[2:].zfill(len(encoded) * 8)\<close>; then
  \<^verbatim>\<open>if padding: bitstr = bitstr[:-padding]\<close>.\<close>

function bin_digits :: "nat \<Rightarrow> bits" where
  "bin_digits n = (if n < 2 then [n = 1] else bin_digits (n div 2) @ [odd n])"
  by pat_completeness auto
termination
  by (relation "measure id") auto

declare bin_digits.simps [simp del]

definition zfill :: "nat \<Rightarrow> bits \<Rightarrow> bits" where
  "zfill w s = replicate (w - length s) False @ s"

definition bitstr_of :: "string \<Rightarrow> bits" where
  "bitstr_of encoded = zfill (length encoded * 8) (bin_digits (le_nat (rev encoded)))"

definition strip_padding :: "nat \<Rightarrow> bits \<Rightarrow> bits" where
  "strip_padding padding bitstr =
     (if padding \<noteq> 0 then take (length bitstr - padding) bitstr else bitstr)"

text \<open>The bit loop of \<^verbatim>\<open>huffman_decode\<close> (archiver_huffman.py): \<open>rt\<close> is the root, \<open>nd\<close> the
  current node; it stops when \<^verbatim>\<open>len(out) == orig_size\<close>.\<close>

fun decode_loop :: "node \<Rightarrow> node \<Rightarrow> bits \<Rightarrow> string \<Rightarrow> nat \<Rightarrow> error + string" where
  "decode_loop rt nd [] out osize = Inr out"
| "decode_loop rt nd (b # rest) out osize =
     (case nd of
        NoneNode \<Rightarrow> Inl AttributeError
      | Node _ _ l r \<Rightarrow>
          (case (if b then r else l) of
             NoneNode \<Rightarrow> Inl AttributeError
           | Node f' s' l' r' \<Rightarrow>
               (case s' of
                  None \<Rightarrow> decode_loop rt (Node f' s' l' r') rest out osize
                | Some c \<Rightarrow>
                    (if length (out @ [c]) = osize then Inr (out @ [c])
                     else decode_loop rt rt rest (out @ [c]) osize))))"

definition huffman_decode :: "string \<Rightarrow> string \<Rightarrow> nat \<Rightarrow> error + string" where
  "huffman_decode encoded service osize =
     (case unpack_from_le 2 service 0 of
        Inl e \<Rightarrow> Inl e
      | Inr padding \<Rightarrow>
          (case unpack_from_le 2 service 2 of
             Inl e \<Rightarrow> Inl e
           | Inr num_syms \<Rightarrow>
               (case read_table num_syms service 4 [] of
                  Inl e \<Rightarrow> Inl e
                | Inr fs \<Rightarrow>
                    (case build_huffman_tree fs of
                       Inl e \<Rightarrow> Inl e
                     | Inr rt \<Rightarrow>
                         decode_loop rt rt (strip_padding padding (bitstr_of encoded)) [] osize))))"

text \<open>The bit loop of \<^verbatim>\<open>huffman_decode_bytes\<close> (universal_decoder.py): it stops when
  \<^verbatim>\<open>len(out) >= orig_size\<close>, and the function returns \<^verbatim>\<open>out[:orig_size]\<close>.\<close>

fun ud_decode_loop :: "node \<Rightarrow> node \<Rightarrow> bits \<Rightarrow> string \<Rightarrow> nat \<Rightarrow> error + string" where
  "ud_decode_loop rt nd [] out osize = Inr out"
| "ud_decode_loop rt nd (b # rest) out osize =
     (case nd of
        NoneNode \<Rightarrow> Inl AttributeError
      | Node _ _ l r \<Rightarrow>
          (case (if b then r else l) of
             NoneNode \<Rightarrow> Inl AttributeError
           | Node f' s' l' r' \<Rightarrow>
               (case s' of
                  None \<Rightarrow> ud_decode_loop rt (Node f' s' l' r') rest out osize
                | Some c \<Rightarrow>
                    (if length (out @ [c]) \<ge> osize then Inr (out @ [c])
                     else ud_decode_loop rt rt rest (out @ [c]) osize))))"

definition huffman_decode_bytes :: "string \<Rightarrow> string \<Rightarrow> nat \<Rightarrow> error + string" where
  "huffman_decode_bytes encoded_bytes service_bytes osize =
     (if length service_bytes < 4 then Inr []
      else
        (case unpack_from_le 2 service_bytes 0 of
           Inl e \<Rightarrow> Inl e
         | Inr padding \<Rightarrow>
             (case unpack_from_le 2 service_bytes 2 of
                Inl e \<Rightarrow> Inl e
              | Inr num_syms \<Rightarrow>
                  (case read_table num_syms service_bytes 4 [] of
                     Inl e \<Rightarrow> Inl e
                   | Inr fs \<Rightarrow>
                       (case ud_build_huffman_tree fs of
                          Inl e \<Rightarrow> Inl e
                        | Inr NoneNode \<Rightarrow> Inr []
                        | Inr rt \<Rightarrow>
                            (case ud_decode_loop rt rt
                                    (strip_padding padding (bitstr_of encoded_bytes)) [] osize of
                               Inl e \<Rightarrow> Inl e
                             | Inr out \<Rightarrow> Inr (take osize out)))))))"

section \<open>The checksum\<close>

text \<open>\<^verbatim>\<open>binascii.crc32(data) & 0xffffffff\<close>: the CRC-32 of zlib and PNG (reflected polynomial
  \<open>0xEDB88320\<close>, initial value and final XOR \<open>0xFFFFFFFF\<close>), bit by bit.\<close>

unbundle bit_operations_syntax

definition crc_shift :: "nat \<Rightarrow> nat" where
  "crc_shift c = (if odd c then (c div 2) XOR 0xEDB88320 else c div 2)"

definition crc_byte :: "nat \<Rightarrow> char \<Rightarrow> nat" where
  "crc_byte c b =
     crc_shift (crc_shift (crc_shift (crc_shift (crc_shift (crc_shift (crc_shift (crc_shift
       (c XOR of_char b))))))))"

definition crc32 :: "string \<Rightarrow> nat" where
  "crc32 data = foldl crc_byte 0xFFFFFFFF data XOR 0xFFFFFFFF"

section \<open>The algorithm selector\<close>

text \<open>\<^verbatim>\<open>intelligent_encode_file(data, force_algorithm, enable_crc)\<close> of intelligent_coder.py.
  It returns the tuple \<^verbatim>\<open>(algorithm_code, encoded_data, meta_info, final_size)\<close>; with a forced
  algorithm other than 0 and 3 no branch returns, and the result is \<^verbatim>\<open>None\<close>.\<close>

definition intelligent_encode_file ::
  "string \<Rightarrow> nat option \<Rightarrow> bool \<Rightarrow> error + (nat \<times> string \<times> string \<times> nat) option" where
  "intelligent_encode_file data force_algorithm enable_crc =
     (let n_original = length data in
      case force_algorithm of
        Some fa \<Rightarrow>
          (if fa = 0 then Inr (Some (0, data, [], n_original))
           else if fa = 3 then
             (case huffman_encode data of
                Inl e \<Rightarrow> Inl e
              | Inr (encoded, meta) \<Rightarrow>
                  (let final_size = length encoded + length meta in
                   if enable_crc then
                     (case pack_le 4 (crc32 data) of
                        Inl e \<Rightarrow> Inl e
                      | Inr w \<Rightarrow> Inr (Some (3, encoded, meta @ w, final_size + 4)))
                   else Inr (Some (3, encoded, meta, final_size))))
           else Inr None)
      | None \<Rightarrow>
          (case huffman_encode data of
             Inl e \<Rightarrow> Inl e
           | Inr (encoded, meta) \<Rightarrow>
               (let n_compressed_data = length encoded;
                    n_meta = length meta;
                    n_compressed_total =
                      (if enable_crc then n_compressed_data + n_meta + 4
                       else n_compressed_data + n_meta)
                in if n_compressed_total \<ge> n_original then Inr (Some (0, data, [], n_original))
                   else
                     (let final_size = n_compressed_total in
                      if enable_crc then
                        (case pack_le 4 (crc32 data) of
                           Inl e \<Rightarrow> Inl e
                         | Inr w \<Rightarrow> Inr (Some (3, encoded, meta @ w, final_size + 4)))
                      else Inr (Some (3, encoded, meta, final_size))))))"

section \<open>Archives\<close>

subsection \<open>Reading from the file\<close>

text \<open>The open archive is the list of the bytes not yet read. \<^verbatim>\<open>f.read(n)\<close> returns the next
  \<open>n\<close> bytes, or fewer at the end of the file: \<open>take n f\<close>, leaving \<open>drop n f\<close>.
  \<^verbatim>\<open>f.read(1)[0]\<close> indexes the result, an IndexError at the end of the file;
  \<^verbatim>\<open>struct.unpack(fmt, f.read(k))\<close> needs exactly \<open>k\<close> bytes.\<close>

definition ebind :: "error + 'a \<Rightarrow> ('a \<Rightarrow> error + 'b) \<Rightarrow> error + 'b" where
  "ebind m k = (case m of Inl e \<Rightarrow> Inl e | Inr x \<Rightarrow> k x)"

definition read_u8 :: "string \<Rightarrow> error + (nat \<times> string)" where
  "read_u8 f = (case f of [] \<Rightarrow> Inl IndexError | b # f' \<Rightarrow> Inr (of_char b, f'))"

definition read_struct :: "nat \<Rightarrow> string \<Rightarrow> error + (nat \<times> string)" where
  "read_struct k f =
     (if length f < k then Inl StructError else Inr (le_nat (take k f), drop k f))"

text \<open>\<^verbatim>\<open>bytes.decode('utf-8')\<close>: the well-formed byte sequences of UTF-8 (no overlong forms, no
  surrogates, nothing above U+10FFFF); anything else raises UnicodeDecodeError. The
  decoded \<^verbatim>\<open>str\<close> is kept as these bytes.\<close>

definition byte_in :: "nat \<Rightarrow> nat \<Rightarrow> char \<Rightarrow> bool" where
  "byte_in lo hi c = (lo \<le> of_char c \<and> of_char c \<le> hi)"

fun valid_utf8 :: "string \<Rightarrow> bool" where
  "valid_utf8 [] = True"
| "valid_utf8 (a # rest) =
     (let x = (of_char a :: nat) in
      if x < 0x80 then valid_utf8 rest
      else if 0xC2 \<le> x \<and> x \<le> 0xDF then
        (case rest of b # r \<Rightarrow> byte_in 0x80 0xBF b \<and> valid_utf8 r | _ \<Rightarrow> False)
      else if 0xE0 \<le> x \<and> x \<le> 0xEF then
        (case rest of
           b # c # r \<Rightarrow>
             byte_in (if x = 0xE0 then 0xA0 else 0x80) (if x = 0xED then 0x9F else 0xBF) b
             \<and> byte_in 0x80 0xBF c \<and> valid_utf8 r
         | _ \<Rightarrow> False)
      else if 0xF0 \<le> x \<and> x \<le> 0xF4 then
        (case rest of
           b # c # d # r \<Rightarrow>
             byte_in (if x = 0xF0 then 0x90 else 0x80) (if x = 0xF4 then 0x8F else 0xBF) b
             \<and> byte_in 0x80 0xBF c \<and> byte_in 0x80 0xBF d \<and> valid_utf8 r
         | _ \<Rightarrow> False)
      else False)"

definition utf8_decode :: "string \<Rightarrow> error + string" where
  "utf8_decode bs = (if valid_utf8 bs then Inr bs else Inl UnicodeDecodeError)"

subsection \<open>Header and table of contents\<close>

text \<open>The header and the table are read by the same statements in \<^verbatim>\<open>extract_archive\<close>,
  \<^verbatim>\<open>decode_v1\<close>, \<^verbatim>\<open>decode_v2\<close> and \<^verbatim>\<open>decode_v3\<close>. The header is
  (version, alg_ctx, alg_noctx, alg_prot, header_size, num_entries); a table entry is the
  tuple (entry_type, relpath, orig_size, stored_size, service).\<close>

type_synonym header = "nat \<times> nat \<times> nat \<times> nat \<times> nat \<times> nat"
type_synonym entry_meta = "nat \<times> string \<times> nat \<times> nat \<times> string"

definition SIGNATURE_PREFIX :: string where
  "SIGNATURE_PREFIX = ''L3ARCH''"

definition read_header :: "string \<Rightarrow> error + (header \<times> string)" where
  "read_header f0 =
     (let sig = take 8 f0; f1 = drop 8 f0 in
      if take 6 sig \<noteq> SIGNATURE_PREFIX then Inl BadSignature
      else
        ebind (read_struct 2 f1) (\<lambda>(version, f2).
        ebind (read_u8 f2) (\<lambda>(alg_ctx, f3).
        ebind (read_u8 f3) (\<lambda>(alg_noctx, f4).
        ebind (read_u8 f4) (\<lambda>(alg_prot, f5).
        ebind (read_struct 8 (drop 1 f5)) (\<lambda>(header_size, f6).
        ebind (read_struct 4 f6) (\<lambda>(num_entries, f7).
        Inr ((version, alg_ctx, alg_noctx, alg_prot, header_size, num_entries), f7))))))))"

fun read_entries :: "nat \<Rightarrow> string \<Rightarrow> error + (entry_meta list \<times> string)" where
  "read_entries 0 f = Inr ([], f)"
| "read_entries (Suc n) f0 =
     ebind (read_u8 f0) (\<lambda>(entry_type, f1).
     ebind (read_struct 2 f1) (\<lambda>(path_len, f2).
     ebind (utf8_decode (take path_len f2)) (\<lambda>relpath.
     ebind (read_struct 8 (drop path_len f2)) (\<lambda>(orig_size, f3).
     ebind (read_struct 8 f3) (\<lambda>(stored_size, f4).
     ebind (read_struct 4 f4) (\<lambda>(service_len, f5).
     ebind (read_entries n (drop service_len f5)) (\<lambda>(rest, f6).
     Inr ((entry_type, relpath, orig_size, stored_size, take service_len f5) # rest, f6))))))))"

subsection \<open>Paths and effects\<close>

text \<open>A \<^verbatim>\<open>pathlib\<close> path on a POSIX system: its root (empty for a relative path, one slash,
  or two for a path that starts with exactly two) and its components. Parsing splits at
  the slashes and drops empty components and single dots; a double dot stays.
  \<^verbatim>\<open>a / b\<close> is \<open>b\<close> when \<open>b\<close> has a root, and the components of \<open>a\<close> followed by those of
  \<open>b\<close> otherwise.\<close>

datatype path = Path (anchor: string) (parts: "string list")

fun split_slash :: "string \<Rightarrow> string list" where
  "split_slash [] = [[]]"
| "split_slash (c # cs) =
     (if c = CHR ''/'' then [] # split_slash cs
      else (case split_slash cs of [] \<Rightarrow> [[c]] | x # xs \<Rightarrow> (c # x) # xs))"

definition path_of_str :: "string \<Rightarrow> path" where
  "path_of_str s =
     (let n = length (takeWhile (\<lambda>c. c = CHR ''/'') s) in
      Path (if n = 0 then [] else if n = 2 then ''//'' else ''/'')
           (filter (\<lambda>p. p \<noteq> [] \<and> p \<noteq> ''.'') (split_slash s)))"

definition path_join :: "path \<Rightarrow> path \<Rightarrow> path" where
  "path_join a b = (if anchor b \<noteq> [] then b else Path (anchor a) (parts a @ parts b))"

definition path_parent :: "path \<Rightarrow> path" where
  "path_parent p = Path (anchor p) (butlast (parts p))"

text \<open>What a decoder does to the world, in order: directories made
  (\<^verbatim>\<open>mkdir(parents=True, exist_ok=True)\<close>), files written (\<^verbatim>\<open>open('wb')\<close> and \<^verbatim>\<open>write\<close>), lines
  printed. The file system is taken to accept every one of them. A decoder's outcome is
  its trace and the exception that ended it, if one did.\<close>

datatype message =
    SignatureOk nat \<comment> \<open>the signature is right, version ...\<close>
  | CrcMismatch string \<comment> \<open>the CRC error line of an entry\<close>
  | Restored string \<comment> \<open>the line that reports a restored entry\<close>
  | RestoredV0 nat \<comment> \<open>the line of decode_v0, with the byte count\<close>

datatype effect = Mkdir path | Write path string | Print message

type_synonym outcome = "effect list \<times> error option"

text \<open>The entry loop that the four decoders share: per entry,
  \<^verbatim>\<open>target = outdir / Path(relpath)\<close>, \<^verbatim>\<open>target.parent.mkdir(...)\<close>,
  \<^verbatim>\<open>stored_bytes = f.read(stored_size) if stored_size else b''\<close>, then the decoder's own
  statements, here \<open>body\<close>. An exception in the body ends the loop.\<close>

fun entries_loop ::
  "(entry_meta \<Rightarrow> path \<Rightarrow> string \<Rightarrow> outcome) \<Rightarrow> path \<Rightarrow> entry_meta list \<Rightarrow> string \<Rightarrow> outcome" where
  "entries_loop body outdir [] f = ([], None)"
| "entries_loop body outdir ((entry_type, relpath, orig_size, stored_size, service) # rest) f =
     (let target = path_join outdir (path_of_str relpath);
          stored_bytes = take stored_size f;
          (tr, err) = body (entry_type, relpath, orig_size, stored_size, service) target stored_bytes
      in case err of
           Some e \<Rightarrow> (Mkdir (path_parent target) # tr, Some e)
         | None \<Rightarrow>
             (let (tr', err') = entries_loop body outdir rest (drop stored_size f)
              in (Mkdir (path_parent target) # tr @ tr', err')))"

subsection \<open>Format constants\<close>

abbreviation (input) SIGNATURE :: string where "SIGNATURE \<equiv> ''L3ARCH04''"
abbreviation (input) VERSION :: nat where "VERSION \<equiv> 2"
abbreviation (input) ALG_NOCTX_NONE :: nat where "ALG_NOCTX_NONE \<equiv> 0"
abbreviation (input) ALG_NOCTX_ZLIB :: nat where "ALG_NOCTX_ZLIB \<equiv> 2"
abbreviation (input) ALG_NOCTX_HUFFMAN :: nat where "ALG_NOCTX_HUFFMAN \<equiv> 3"
abbreviation (input) ALG_PROT_NONE :: nat where "ALG_PROT_NONE \<equiv> 0"
abbreviation (input) ALG_PROT_CRC32 :: nat where "ALG_PROT_CRC32 \<equiv> 11"
abbreviation (input) RESERVED :: nat where "RESERVED \<equiv> 0"
abbreviation (input) ENTRY_DIR :: nat where "ENTRY_DIR \<equiv> 0"
abbreviation (input) ENTRY_FILE :: nat where "ENTRY_FILE \<equiv> 1"

subsection \<open>The decoders\<close>

text \<open>\<^verbatim>\<open>if crc_val is not None and (crc32(raw) & 0xffffffff) != crc_val: print(...)\<close>, the
  report that every decoder makes in these words.\<close>

definition crc_report :: "nat option \<Rightarrow> string \<Rightarrow> string \<Rightarrow> effect list" where
  "crc_report crc_val raw relpath =
     (case crc_val of
        None \<Rightarrow> []
      | Some v \<Rightarrow> if crc32 raw \<noteq> v then [Print (CrcMismatch relpath)] else [])"

text \<open>\<^verbatim>\<open>service[-4:]\<close> and \<^verbatim>\<open>service[:-4]\<close>.\<close>

definition last4 :: "string \<Rightarrow> string" where
  "last4 s = drop (length s - 4) s"

definition but_last4 :: "string \<Rightarrow> string" where
  "but_last4 s = take (length s - 4) s"

text \<open>\<^verbatim>\<open>extract_archive\<close> of archiver_huffman.py: the statements of its loop after
  \<^verbatim>\<open>stored_bytes\<close> is read, and the function.\<close>

definition extract_body :: "nat \<Rightarrow> nat \<Rightarrow> entry_meta \<Rightarrow> path \<Rightarrow> string \<Rightarrow> outcome" where
  "extract_body alg_noctx alg_prot entry target_path stored_bytes =
     (case entry of (entry_type, relpath, orig_size, stored_size, service) \<Rightarrow>
        if entry_type = ENTRY_FILE then
          (if alg_noctx = ALG_NOCTX_HUFFMAN then
             (let checked = (alg_prot = ALG_PROT_CRC32 \<and> length service > 6);
                  crc_val = (if checked then Some (le_nat (last4 service)) else None);
                  service' = (if checked then but_last4 service else service)
              in case huffman_decode stored_bytes service' orig_size of
                   Inl e \<Rightarrow> ([], Some e)
                 | Inr raw \<Rightarrow>
                     (crc_report crc_val raw relpath
                        @ [Write target_path raw, Print (Restored relpath)], None))
           else ([Write target_path stored_bytes, Print (Restored relpath)], None))
        else ([], None))"


text \<open>\<^verbatim>\<open>decode_v0\<close>: skip eight bytes, read the length and the data.\<close>

definition decode_v0 :: "string \<Rightarrow> path \<Rightarrow> outcome" where
  "decode_v0 archive outdir =
     (case read_struct 8 (drop 8 archive) of
        Inl e \<Rightarrow> ([], Some e)
      | Inr (orig_len, f) \<Rightarrow>
          (let data = take orig_len f in
           if length data \<noteq> orig_len then ([], Some (ShortRead orig_len (length data)))
           else ([Mkdir outdir,
                  Write (path_join outdir (path_of_str ''restored_v0.bin'')) data,
                  Print (RestoredV0 (length data))], None)))"

text \<open>\<^verbatim>\<open>decode_v1\<close>. \<^verbatim>\<open>zlib.decompress\<close> is a parameter of the model: a function from the stored
  bytes to the inflated bytes or \<^verbatim>\<open>zlib.error\<close>.\<close>

definition v1_body ::
  "(string \<Rightarrow> error + string) \<Rightarrow> nat \<Rightarrow> nat \<Rightarrow> entry_meta \<Rightarrow> path \<Rightarrow> string \<Rightarrow> outcome" where
  "v1_body zlib_decompress alg_noctx alg_prot entry target stored_bytes =
     (case entry of (entry_type, relpath, orig_size, stored_size, service) \<Rightarrow>
        (let expected_crc =
               (if alg_prot = ALG_PROT_CRC32 \<and> length service \<ge> 4
                then Some (le_nat (take 4 service)) else None)
         in case (if alg_noctx = 2 then zlib_decompress stored_bytes else Inr stored_bytes) of
              Inl e \<Rightarrow> ([], Some e)
            | Inr raw \<Rightarrow>
                (crc_report expected_crc raw relpath
                   @ [Write target raw, Print (Restored relpath)], None)))"

definition decode_v1 :: "(string \<Rightarrow> error + string) \<Rightarrow> string \<Rightarrow> path \<Rightarrow> outcome" where
  "decode_v1 zlib_decompress archive outdir =
     (case read_header archive of
        Inl e \<Rightarrow> ([], Some e)
      | Inr ((version, alg_ctx, alg_noctx, alg_prot, header_size, num_entries), f) \<Rightarrow>
          (case read_entries num_entries f of
             Inl e \<Rightarrow> ([], Some e)
           | Inr (entries_meta, f') \<Rightarrow>
               (let (tr, err) =
                      entries_loop (v1_body zlib_decompress alg_noctx alg_prot) outdir entries_meta f'
                in (Mkdir outdir # tr, err))))"

text \<open>\<^verbatim>\<open>decode_v2\<close>.\<close>

definition v2_body ::
  "(string \<Rightarrow> error + string) \<Rightarrow> nat \<Rightarrow> nat \<Rightarrow> entry_meta \<Rightarrow> path \<Rightarrow> string \<Rightarrow> outcome" where
  "v2_body zlib_decompress alg_noctx alg_prot entry target stored_bytes =
     (case entry of (entry_type, relpath, orig_size, stored_size, service) \<Rightarrow>
        if alg_noctx = 3 then
          (let checked = (alg_prot = ALG_PROT_CRC32 \<and> length service \<ge> 4);
               crc_val = (if checked then Some (le_nat (last4 service)) else None);
               service' = (if checked then but_last4 service else service)
           in case huffman_decode_bytes stored_bytes service' orig_size of
                Inl e \<Rightarrow> ([], Some e)
              | Inr raw \<Rightarrow>
                  (crc_report crc_val raw relpath
                     @ [Write target raw, Print (Restored relpath)], None))
        else if alg_noctx = 2 then
          (case zlib_decompress stored_bytes of
             Inl e \<Rightarrow> ([], Some e)
           | Inr raw \<Rightarrow> ([Write target raw, Print (Restored relpath)], None))
        else ([Write target stored_bytes, Print (Restored relpath)], None))"

definition decode_v2 :: "(string \<Rightarrow> error + string) \<Rightarrow> string \<Rightarrow> path \<Rightarrow> outcome" where
  "decode_v2 zlib_decompress archive outdir =
     (case read_header archive of
        Inl e \<Rightarrow> ([], Some e)
      | Inr ((version, alg_ctx, alg_noctx, alg_prot, header_size, num_entries), f) \<Rightarrow>
          (case read_entries num_entries f of
             Inl e \<Rightarrow> ([], Some e)
           | Inr (entries_meta, f') \<Rightarrow>
               (let (tr, err) =
                      entries_loop (v2_body zlib_decompress alg_noctx alg_prot) outdir entries_meta f'
                in (Mkdir outdir # tr, err))))"

text \<open>\<^verbatim>\<open>decode_v3\<close>. For algorithm code 3 it calls \<^verbatim>\<open>huffman_decode(stored_bytes, meta_info,
  orig_size)\<close>. universal_decoder.py defines \<^verbatim>\<open>huffman_decode_bytes\<close> and imports nothing from
  archiver_huffman.py, so the module has no name \<^verbatim>\<open>huffman_decode\<close>: the call raises NameError
  when it is reached.\<close>

definition v3_body :: "nat \<Rightarrow> entry_meta \<Rightarrow> path \<Rightarrow> string \<Rightarrow> outcome" where
  "v3_body alg_prot entry target stored_bytes =
     (case entry of (entry_type, relpath, orig_size, stored_size, service) \<Rightarrow>
        if entry_type = 1 then
          (let algorithm_code = (case service of [] \<Rightarrow> 0 | c # _ \<Rightarrow> of_char c);
               meta_info = (case service of [] \<Rightarrow> [] | _ # m \<Rightarrow> m)
           in case (if algorithm_code = 0 then Inr stored_bytes
                    else if algorithm_code = 3 then Inl (NameError ''huffman_decode'')
                    else Inl (UnknownAlgorithm algorithm_code)) of
                Inl e \<Rightarrow> ([], Some e)
              | Inr raw_data \<Rightarrow>
                  (crc_report
                     (if alg_prot = 11 \<and> length meta_info \<ge> 4
                      then Some (le_nat (last4 meta_info)) else None)
                     raw_data relpath
                   @ [Write target raw_data, Print (Restored relpath)], None))
        else ([], None))"

definition decode_v3 :: "string \<Rightarrow> path \<Rightarrow> outcome" where
  "decode_v3 archive outdir =
     (case read_header archive of
        Inl e \<Rightarrow> ([], Some e)
      | Inr ((version, alg_ctx, alg_noctx, alg_prot, header_size, num_entries), f) \<Rightarrow>
          (case read_entries num_entries f of
             Inl e \<Rightarrow> ([], Some e)
           | Inr (entries_meta, f') \<Rightarrow>
               (let (tr, err) = entries_loop (v3_body alg_prot) outdir entries_meta f'
                in (Mkdir outdir # tr, err))))"

text \<open>\<^verbatim>\<open>universal_decode\<close>: the version is \<^verbatim>\<open>struct.unpack('<H', head[6:8])[0]\<close>, the last two
  of the eight bytes read for the signature.\<close>

definition universal_decode :: "(string \<Rightarrow> error + string) \<Rightarrow> string \<Rightarrow> path \<Rightarrow> outcome" where
  "universal_decode zlib_decompress archive outdir =
     (let head = take 8 archive in
      if take 6 head \<noteq> ''L3ARCH'' then ([], Some BadSignature)
      else
        (case (if length (drop 6 head) = 2 then Inr (le_nat (drop 6 head)) else Inl StructError) of
           Inl e \<Rightarrow> ([], Some e)
         | Inr version \<Rightarrow>
             (let (tr, err) =
                    (if version = 0 then decode_v0 archive outdir
                     else if version = 1 then decode_v1 zlib_decompress archive outdir
                     else if version = 2 then decode_v2 zlib_decompress archive outdir
                     else if version = 3 then decode_v3 archive outdir
                     else ([], Some (UnknownVersion version)))
              in (Print (SignatureOk version) # tr, err))))"

subsection \<open>The writers\<close>

text \<open>\<^verbatim>\<open>build_archive(entries, out_path, huffman, crc)\<close> of archiver_huffman.py. An entry is
  given as (type, relpath, the bytes of the file at orig_path); the result is the bytes
  written to \<^verbatim>\<open>out_path\<close>. The first loop encodes the entries, the second builds the table.\<close>

definition encode_entry :: "bool \<Rightarrow> bool \<Rightarrow> string \<Rightarrow> error + (string \<times> string)" where
  "encode_entry huffman crc raw =
     ebind (if huffman then huffman_encode raw else Inr (raw, [])) (\<lambda>(stored, service).
     if crc then ebind (pack_le 4 (crc32 raw)) (\<lambda>w. Inr (stored, service @ w))
     else Inr (stored, service))"

fun encode_entries ::
  "bool \<Rightarrow> bool \<Rightarrow> (nat \<times> string \<times> string) list \<Rightarrow> error + (string \<times> string) list" where
  "encode_entries huffman crc [] = Inr []"
| "encode_entries huffman crc ((ty, relpath, raw) # rest) =
     ebind (encode_entry huffman crc raw) (\<lambda>enc.
     ebind (encode_entries huffman crc rest) (\<lambda>encs. Inr (enc # encs)))"

definition table_entry :: "nat \<Rightarrow> string \<Rightarrow> nat \<Rightarrow> nat \<Rightarrow> string \<Rightarrow> error + string" where
  "table_entry ty relpath_bytes orig_size stored_size service_bytes =
     ebind (pack_le 1 ty) (\<lambda>a.
     ebind (pack_le 2 (length relpath_bytes)) (\<lambda>b.
     ebind (pack_le 8 orig_size) (\<lambda>c.
     ebind (pack_le 8 stored_size) (\<lambda>d.
     ebind (pack_le 4 (length service_bytes)) (\<lambda>e.
     Inr (a @ b @ relpath_bytes @ c @ d @ e @ service_bytes))))))"

fun build_table ::
  "(nat \<times> string \<times> string) list \<Rightarrow> (string \<times> string) list \<Rightarrow> error + string" where
  "build_table ((ty, relpath, raw) # rest) ((stored, service) # encs) =
     ebind (table_entry ty relpath (length raw) (length stored) service) (\<lambda>t.
     ebind (build_table rest encs) (\<lambda>ts. Inr (t @ ts)))"
| "build_table _ _ = Inr []"

definition archive_header :: "nat \<Rightarrow> nat \<Rightarrow> nat \<Rightarrow> nat \<Rightarrow> nat \<Rightarrow> error + string" where
  "archive_header version alg_noctx alg_prot header_size num_entries =
     ebind (pack_le 2 version) (\<lambda>v.
     ebind (pack_le 1 0) (\<lambda>ctx.
     ebind (pack_le 1 alg_noctx) (\<lambda>noctx.
     ebind (pack_le 1 alg_prot) (\<lambda>prot.
     ebind (pack_le 1 RESERVED) (\<lambda>res.
     ebind (pack_le 8 header_size) (\<lambda>hs.
     ebind (pack_le 4 num_entries) (\<lambda>ne.
     Inr (SIGNATURE @ v @ ctx @ noctx @ prot @ res @ hs @ ne))))))))"

definition build_archive ::
  "(nat \<times> string \<times> string) list \<Rightarrow> bool \<Rightarrow> bool \<Rightarrow> error + string" where
  "build_archive entries huffman crc =
     (let alg_noctx = (if huffman then ALG_NOCTX_HUFFMAN else ALG_NOCTX_NONE);
          alg_prot = (if crc then ALG_PROT_CRC32 else ALG_PROT_NONE)
      in ebind (encode_entries huffman crc entries) (\<lambda>encs.
         ebind (build_table entries encs) (\<lambda>table_bytes.
         ebind (archive_header VERSION alg_noctx alg_prot (26 + length table_bytes)
                  (length entries)) (\<lambda>hdr.
         Inr (hdr @ table_bytes @ concat (map fst encs))))))"

text \<open>\<^verbatim>\<open>create_intelligent_archive\<close> and \<^verbatim>\<open>save_archive_v3\<close> of intelligent_coder.py. An input
  file is given as (name, bytes); an entry of the second function is (type, relpath,
  orig_size, stored_size, service, algorithm_code). With no entry nothing is written and
  the result is \<^verbatim>\<open>False\<close>, here \<open>None\<close>.\<close>

type_synonym v3_entry = "nat \<times> string \<times> nat \<times> nat \<times> string \<times> nat"

fun v3_table :: "v3_entry list \<Rightarrow> error + string" where
  "v3_table [] = Inr []"
| "v3_table ((ty, relpath, orig_size, stored_size, service, algorithm_code) # rest) =
     (if algorithm_code \<ge> 256 then Inl ByteRangeError
      else
        ebind (table_entry ty relpath orig_size stored_size (char_of algorithm_code # service)) (\<lambda>t.
        ebind (v3_table rest) (\<lambda>ts. Inr (t @ ts))))"

definition save_archive_v3 :: "v3_entry list \<Rightarrow> string list \<Rightarrow> bool \<Rightarrow> error + string" where
  "save_archive_v3 entries data_blocks enable_crc =
     ebind (v3_table entries) (\<lambda>table_bytes.
     ebind (archive_header 3 0 (if enable_crc then ALG_PROT_CRC32 else 0)
              (26 + length table_bytes) (length entries)) (\<lambda>hdr.
     Inr (hdr @ table_bytes @ concat data_blocks)))"

fun analyse_files ::
  "(string \<times> string) list \<Rightarrow> nat option \<Rightarrow> bool \<Rightarrow> error + (v3_entry \<times> string) list" where
  "analyse_files [] force_algorithm enable_crc = Inr []"
| "analyse_files ((name, data) # rest) force_algorithm enable_crc =
     ebind (intelligent_encode_file data force_algorithm enable_crc) (\<lambda>r.
       case r of
         None \<Rightarrow> Inl TypeError
       | Some (algorithm_code, encoded_data, meta_info, final_size) \<Rightarrow>
           ebind (analyse_files rest force_algorithm enable_crc) (\<lambda>es.
           Inr (((1, name, length data, length encoded_data, meta_info, algorithm_code),
                 encoded_data) # es)))"

definition create_intelligent_archive ::
  "(string \<times> string) list \<Rightarrow> nat option \<Rightarrow> bool \<Rightarrow> error + string option" where
  "create_intelligent_archive input_files force_algorithm enable_crc =
     ebind (analyse_files input_files force_algorithm enable_crc) (\<lambda>es.
       if es = [] then Inr None
       else ebind (save_archive_v3 (map fst es) (map snd es) enable_crc) (\<lambda>a. Inr (Some a)))"

section \<open>Where a path lies\<close>




section \<open>Inputs used in the examples\<close>

text \<open>A \<^verbatim>\<open>zlib.decompress\<close> that rejects every input, and an absolute output directory.\<close>

definition no_zlib :: "string \<Rightarrow> error + string" where
  "no_zlib s = Inl ZlibError"

text \<open>A stand-in for \<^verbatim>\<open>zlib.decompress\<close> that accepts every input: it drops a two-byte
  header and returns the rest.\<close>

definition stored_zlib :: "string \<Rightarrow> error + string" where
  "stored_zlib s = Inr (drop 2 s)"

definition out_root :: path where
  "out_root = Path ''/'' [''out'']"

text \<open>The archive that \<^verbatim>\<open>build_archive\<close> writes for one file \<^verbatim>\<open>a.txt\<close> holding \<^verbatim>\<open>hi\<close>, without
  Huffman and without CRC: signature, version 2, four tag bytes, header size, entry count,
  one table entry, the data.\<close>

definition ex_v2_archive :: string where
  "ex_v2_archive =
     ''L3ARCH04'' @ [CHR 0x02, CHR 0x00] @ [CHR 0x00, CHR 0x00, CHR 0x00, CHR 0x00]
     @ nat_le 8 54 @ nat_le 4 1
     @ [CHR 0x01] @ nat_le 2 5 @ ''a.txt'' @ nat_le 8 2 @ nat_le 8 2 @ nat_le 4 0
     @ ''hi''"

text \<open>The archive that the intelligent coder writes for the same file (the selector
  stores it), and the one it writes for a file of twelve times \<^verbatim>\<open>ab\<close> (the selector
  takes Huffman: 3 payload bytes and 14 bytes of metadata against 24).\<close>

definition ex_v3_store_archive :: string where
  "ex_v3_store_archive =
     ''L3ARCH04'' @ [CHR 0x03, CHR 0x00] @ [CHR 0x00, CHR 0x00, CHR 0x00, CHR 0x00]
     @ nat_le 8 55 @ nat_le 4 1
     @ [CHR 0x01] @ nat_le 2 5 @ ''a.txt'' @ nat_le 8 2 @ nat_le 8 2 @ nat_le 4 1 @ [CHR 0x00]
     @ ''hi''"

definition ex_v3_huffman_input :: string where
  "ex_v3_huffman_input = ''abababababababababababab''"

definition ex_v3_huffman_archive :: string where
  "ex_v3_huffman_archive =
     ''L3ARCH04'' @ [CHR 0x03, CHR 0x00] @ [CHR 0x00, CHR 0x00, CHR 0x00, CHR 0x00]
     @ nat_le 8 69 @ nat_le 4 1
     @ [CHR 0x01] @ nat_le 2 5 @ ''a.txt'' @ nat_le 8 24 @ nat_le 8 3 @ nat_le 4 15
     @ [CHR 0x03] @ nat_le 2 0 @ nat_le 2 2 @ ''a'' @ nat_le 4 12 @ ''b'' @ nat_le 4 12
     @ [CHR 0x55, CHR 0x55, CHR 0x55]"

text \<open>The archive \<^verbatim>\<open>build_archive\<close> writes for one entry whose relative path is \<^verbatim>\<open>../b\<close>.\<close>

definition ex_traversal_archive :: string where
  "ex_traversal_archive =
     ''L3ARCH04'' @ [CHR 0x02, CHR 0x00] @ [CHR 0x00, CHR 0x00, CHR 0x00, CHR 0x00]
     @ nat_le 8 53 @ nat_le 4 1
     @ [CHR 0x01] @ nat_le 2 4 @ ''../b'' @ nat_le 8 4 @ nat_le 8 4 @ nat_le 4 0
     @ ''abba''"

text \<open>The Huffman form of \<^verbatim>\<open>ab\<close> (one payload byte, a table of two symbols), a checksum
  field of four zero bytes, a table entry that carries the right checksum of \<^verbatim>\<open>ab\<close>, a v2
  archive with the store codec, protection 11 and a zero checksum for the data \<^verbatim>\<open>hi\<close>,
  and a v0 archive of the data \<^verbatim>\<open>hi\<close>.\<close>

definition ex_ab_service :: string where
  "ex_ab_service = nat_le 2 6 @ nat_le 2 2 @ ''a'' @ nat_le 4 1 @ ''b'' @ nat_le 4 1"

definition ex_ab_payload :: string where
  "ex_ab_payload = [CHR 0x40]"

definition ex_zero_crc :: string where
  "ex_zero_crc = [CHR 0x00, CHR 0x00, CHR 0x00, CHR 0x00]"




section \<open>Properties of the Huffman encoder\<close>

lemma le_nat_nat_le: "n < 256 ^ k \<Longrightarrow> le_nat (nat_le k n) = n"
proof (induction k arbitrary: n)
  case 0
  then show ?case by simp
next
  case (Suc k)
  have "n div 256 < 256 ^ k"
    using Suc.prems by (simp add: less_mult_imp_div_less mult.commute)
  then show ?case using Suc.IH[of "n div 256"] by simp
qed

lemma length_nat_le [simp]: "length (nat_le k n) = k"
  by (induction k arbitrary: n) auto

lemma pack_le_Inr: "pack_le k n = Inr w \<Longrightarrow> length w = k \<and> le_nat w = n"
  by (auto simp: pack_le_def le_nat_nat_le split: if_splits)

lemma foldl_counter_add_same:
  "foldl counter_add [(c, k)] (replicate n c) = [(c, k + n)]"
  by (induction n arbitrary: k) auto

lemma Counter_replicate: "Counter (replicate (Suc n) c) = [(c, Suc n)]"
  using foldl_counter_add_same[of c 1 n] by (simp add: Counter_def)

lemma heapify_single: "heapify [x] = [x]"
  by (simp add: heapify_def)

text \<open>One distinct byte: the tree is the wrapper node with the leaf on the left and
  \<^verbatim>\<open>None\<close> on the right, and \<^verbatim>\<open>build_codes\<close> walks into the right child.\<close>

lemma build_huffman_tree_single:
  "build_huffman_tree [(c, k)] = Inr (Node k None (Node k (Some c) NoneNode NoneNode) NoneNode)"
  by (simp add: build_huffman_tree_def leaves_of_def heapify_single)

lemma huffman_code_bits_single: "huffman_code_bits (replicate (Suc n) c) = Inl AttributeError"
  by (simp add: huffman_code_bits_def Counter_replicate build_huffman_tree_single
           del: replicate.simps)

lemma huffman_encode_single: "huffman_encode (replicate (Suc n) c) = Inl AttributeError"
  by (simp add: huffman_encode_def huffman_code_bits_single del: replicate.simps)

lemma huffman_encode_empty: "huffman_encode [] = Inl IndexError"
  by code_simp

text \<open>
  C1. The claim: for every byte sequence, the empty one and a single repeated byte
  included, decoding the encoded form gives the bytes back, under the store codec and
  under Huffman. The store codec keeps the bytes as they are. Under Huffman the round
  trip never starts for an input of one distinct byte: \<^verbatim>\<open>build_huffman_tree\<close> wraps the only
  leaf in a node whose right child is \<^verbatim>\<open>None\<close>, and \<^verbatim>\<open>build_codes\<close> then reads
  \<^verbatim>\<open>node.symbol\<close> of that \<^verbatim>\<open>None\<close>. So \<^verbatim>\<open>huffman_encode\<close> raises AttributeError on every input
  that repeats one byte, whatever its length (\<^verbatim>\<open>b"AAAA"\<close> is \<open>replicate 4 (CHR ''A'')\<close>).
\<close>

theorem huffman_encode_single_symbol_raises:
  "huffman_encode (replicate (Suc n) c) = Inl AttributeError \<and>
   huffman_encode ''AAAA'' = Inl AttributeError"
proof -
  have "''AAAA'' = replicate (Suc 3) (CHR ''A'')"
    by (simp add: numeral_3_eq_3)
  then show ?thesis
    using huffman_encode_single by metis
qed

text \<open>
  C4. The claim: \<^verbatim>\<open>huffman_encode\<close> of the empty byte sequence does not crash and returns
  an empty payload with metadata recording zero symbols. In the code the empty input
  never gets that far: \<^verbatim>\<open>build_huffman_tree\<close> of archiver_huffman.py ends in
  \<^verbatim>\<open>return heap[0]\<close> on an empty heap, an IndexError.
\<close>

theorem huffman_encode_empty_raises: "huffman_encode [] = Inl IndexError"
  by code_simp

section \<open>Properties of the selector\<close>

text \<open>Where \<^verbatim>\<open>huffman_encode\<close> returns, the adaptive selector compares as the specification
  says: Huffman exactly when payload plus metadata (plus four bytes with CRC) is
  strictly smaller than the input, and the raw bytes with empty metadata otherwise.\<close>

lemma selector_sound:
  assumes "huffman_encode data = Inr (encoded, meta)"
  shows "case intelligent_encode_file data None enable_crc of
           Inl e \<Rightarrow> True
         | Inr None \<Rightarrow> False
         | Inr (Some (code, out, m, fs)) \<Rightarrow>
             (code = 3) = (length encoded + length meta + (if enable_crc then 4 else 0) < length data)
             \<and> (code = 3 \<or> (code = 0 \<and> out = data \<and> m = []))
             \<and> (code = 3 \<longrightarrow> out = encoded \<and> take (length meta) m = meta)"
  using assms
  by (auto simp: intelligent_encode_file_def Let_def split: sum.splits option.splits)

text \<open>
  C5. The claim: for every input, the adaptive selector chooses Huffman if and only if
  the encoded payload plus metadata (plus 4 with protection) is strictly smaller than
  the raw size, and store otherwise. The selector calls \<^verbatim>\<open>huffman_encode\<close> before it
  compares anything, so on the empty input and on every input of one distinct byte it
  raises the encoder's exception and chooses nothing.
\<close>

theorem selector_raises_on_degenerate_input:
  "intelligent_encode_file [] None enable_crc = Inl IndexError \<and>
   intelligent_encode_file (replicate (Suc n) c) None enable_crc = Inl AttributeError"
  by (simp add: intelligent_encode_file_def huffman_encode_empty huffman_encode_single
           del: replicate.simps)

section \<open>Properties of the Huffman decoders\<close>

lemma read_table_short:
  "off \<le> length service \<Longrightarrow> length service < off + 5 * n \<Longrightarrow>
     read_table n service off fs = Inl StructError"
  by (induction n arbitrary: off fs) auto

lemma unpack_header_short:
  "length service < 4 \<Longrightarrow>
     unpack_from_le 2 service 0 = Inl StructError \<or>
     (\<exists>p. unpack_from_le 2 service 0 = Inr p \<and> unpack_from_le 2 service 2 = Inl StructError)"
  by (auto simp: unpack_from_le_def)

text \<open>
  C8. The claim: for every payload and every service blob that is truncated or
  inconsistent, Huffman decoding fails with a format error rather than reading out of
  bounds or silently returning a value. As amended: a blob shorter than its four header
  bytes makes \<^verbatim>\<open>huffman_decode\<close> fail with \<^verbatim>\<open>struct.error\<close>, while \<^verbatim>\<open>huffman_decode_bytes\<close>
  returns the empty byte string without an error (its first statement is
  \<^verbatim>\<open>if len(service_bytes) < 4: return b''\<close>); a blob that has the header but is shorter than
  the table its symbol count declares makes both fail with \<^verbatim>\<open>struct.error\<close>, and neither
  reads outside the blob.
\<close>

theorem truncated_service_outcomes:
  "(length service < 4 \<longrightarrow>
      huffman_decode encoded service osize = Inl StructError \<and>
      huffman_decode_bytes encoded service osize = Inr []) \<and>
   (4 \<le> length service \<and> length service < 4 + 5 * le_nat (take 2 (drop 2 service)) \<longrightarrow>
      huffman_decode encoded service osize = Inl StructError \<and>
      huffman_decode_bytes encoded service osize = Inl StructError)"
proof (intro conjI impI)
  assume "length service < 4"
  then show "huffman_decode encoded service osize = Inl StructError"
    using unpack_header_short[of service] by (auto simp: huffman_decode_def)
next
  assume "length service < 4"
  then show "huffman_decode_bytes encoded service osize = Inr []"
    by (simp add: huffman_decode_bytes_def)
next
  assume a: "4 \<le> length service \<and> length service < 4 + 5 * le_nat (take 2 (drop 2 service))"
  then have u: "unpack_from_le 2 service 0 = Inr (le_nat (take 2 service))"
    "unpack_from_le 2 service 2 = Inr (le_nat (take 2 (drop 2 service)))"
    by (simp_all add: unpack_from_le_def)
  have t: "read_table (le_nat (take 2 (drop 2 service))) service 4 [] = Inl StructError"
    using a by (intro read_table_short) simp_all
  show "huffman_decode encoded service osize = Inl StructError"
    by (simp add: huffman_decode_def u t)
next
  assume a: "4 \<le> length service \<and> length service < 4 + 5 * le_nat (take 2 (drop 2 service))"
  then have u: "unpack_from_le 2 service 0 = Inr (le_nat (take 2 service))"
    "unpack_from_le 2 service 2 = Inr (le_nat (take 2 (drop 2 service)))"
    by (simp_all add: unpack_from_le_def)
  have t: "read_table (le_nat (take 2 (drop 2 service))) service 4 [] = Inl StructError"
    using a by (intro read_table_short) simp_all
  show "huffman_decode_bytes encoded service osize = Inl StructError"
    using a by (simp add: huffman_decode_bytes_def u t)
qed

text \<open>The theorem at a three-byte blob, and at a blob that declares two symbols and holds
  one and a half.\<close>

theorem truncated_service_outcomes_witness:
  "huffman_decode ''xyz'' [CHR 0x00, CHR 0x00, CHR 0x01] 3 = Inl StructError \<and>
   huffman_decode_bytes ''xyz'' [CHR 0x00, CHR 0x00, CHR 0x01] 3 = Inr [] \<and>
   huffman_decode ''xyz'' ([CHR 0x00, CHR 0x00, CHR 0x02, CHR 0x00] @ ''a'' @ nat_le 4 1 @ ''b'') 3
     = Inl StructError \<and>
   huffman_decode_bytes ''xyz'' ([CHR 0x00, CHR 0x00, CHR 0x02, CHR 0x00] @ ''a'' @ nat_le 4 1 @ ''b'') 3
     = Inl StructError"
proof -
  have h1: "length [CHR 0x00, CHR 0x00, CHR 0x01] < 4" by simp
  have h2: "4 \<le> length ([CHR 0x00, CHR 0x00, CHR 0x02, CHR 0x00] @ ''a'' @ nat_le 4 1 @ ''b'') \<and>
            length ([CHR 0x00, CHR 0x00, CHR 0x02, CHR 0x00] @ ''a'' @ nat_le 4 1 @ ''b'')
              < 4 + 5 * le_nat (take 2 (drop 2
                   ([CHR 0x00, CHR 0x00, CHR 0x02, CHR 0x00] @ ''a'' @ nat_le 4 1 @ ''b'')))"
    by simp
  show ?thesis
    using truncated_service_outcomes[of "[CHR 0x00, CHR 0x00, CHR 0x01]" "''xyz''" 3] h1
          truncated_service_outcomes
            [of "[CHR 0x00, CHR 0x00, CHR 0x02, CHR 0x00] @ ''a'' @ nat_le 4 1 @ ''b''" "''xyz''" 3]
          h2
    by blast
qed

text \<open>The claim as stated fails: a three-byte blob, and a blob that declares no symbol
  for a payload of three bytes, both decode to the empty byte string without an error.\<close>

theorem truncated_service_silent_counterexample:
  "huffman_decode_bytes ''xyz'' [CHR 0x00, CHR 0x00, CHR 0x01] 3 = Inr [] \<and>
   huffman_decode_bytes ''xyz'' [CHR 0x00, CHR 0x00, CHR 0x00, CHR 0x00] 3 = Inr []"
  by code_simp

section \<open>Properties of the dispatcher and of decode_v3\<close>

lemma universal_decode_L3ARCH04:
  assumes "take 8 archive = ''L3ARCH04''"
  shows "universal_decode zl archive outdir =
           ([Print (SignatureOk 13360)], Some (UnknownVersion 13360))"
proof -
  have a: "take 6 (take 8 archive) = ''L3ARCH''" "drop 6 (take 8 archive) = ''04''"
    using assms by simp_all
  show ?thesis
    unfolding universal_decode_def Let_def a by simp
qed

lemma archive_header_signature:
  "archive_header v a b hs n = Inr h \<Longrightarrow> take 8 (h @ rest) = ''L3ARCH04''"
  by (auto simp: archive_header_def ebind_def split: sum.splits)

lemma archive_header_version:
  assumes "archive_header v a b hs n = Inr h"
  shows "le_nat (take 2 (drop 8 (h @ rest))) = v"
proof -
  obtain w t where h: "h = ''L3ARCH04'' @ w @ t" and w: "pack_le 2 v = Inr w"
    using assms by (auto simp: archive_header_def ebind_def split: sum.splits)
  have "length w = 2" "le_nat w = v" using pack_le_Inr[OF w] by simp_all
  then show ?thesis by (simp add: h)
qed

lemma build_archive_signature:
  "build_archive es h c = Inr a \<Longrightarrow> take 8 a = ''L3ARCH04''"
  by (auto simp: build_archive_def ebind_def Let_def split: sum.splits
           dest: archive_header_signature)

lemma save_archive_v3_signature:
  "save_archive_v3 es bl c = Inr a \<Longrightarrow> take 8 a = ''L3ARCH04''"
  by (auto simp: save_archive_v3_def ebind_def Let_def split: sum.splits
           dest: archive_header_signature)

lemma build_archive_version:
  "build_archive es h c = Inr a \<Longrightarrow> le_nat (take 2 (drop 8 a)) = 2"
  by (auto simp: build_archive_def ebind_def Let_def split: sum.splits
           dest: archive_header_version)

lemma save_archive_v3_version:
  "save_archive_v3 es bl c = Inr a \<Longrightarrow> le_nat (take 2 (drop 8 a)) = 3"
  by (auto simp: save_archive_v3_def ebind_def Let_def split: sum.splits
           dest: archive_header_version)

lemma ex_v2_archive_written:
  "build_archive [(ENTRY_FILE, ''a.txt'', ''hi'')] False False = Inr ex_v2_archive"
  by code_simp

lemma ex_v3_store_archive_saved:
  "save_archive_v3 [(1, ''a.txt'', 2, 2, [], 0)] [''hi''] False = Inr ex_v3_store_archive"
  by code_simp

lemma ex_v3_store_archive_written:
  "create_intelligent_archive [(''a.txt'', ''hi'')] None False = Inr (Some ex_v3_store_archive)"
  by code_simp

lemma ex_v3_huffman_archive_written:
  "create_intelligent_archive [(''a.txt'', ex_v3_huffman_input)] None False
     = Inr (Some ex_v3_huffman_archive)"
  by code_simp

text \<open>
  C2. The claim: an archive whose u16 version field, the one the writers put after the
  8-byte signature field, is 0, 1, 2 or 3 is dispatched to the decoder of that version,
  and an unknown version fails without writing a file. \<^verbatim>\<open>universal_decode\<close> does not read
  that field: it unpacks bytes 6 and 7 of the signature field. Both writers of the
  repository put \<^verbatim>\<open>L3ARCH04\<close> there, so for every archive they write (version field 2 from
  \<^verbatim>\<open>build_archive\<close>, 3 from \<^verbatim>\<open>save_archive_v3\<close>) the dispatcher reads the characters \<^verbatim>\<open>04\<close>
  as version 13360 and raises its unknown-version error; nothing is decoded.
\<close>

theorem universal_decode_rejects_written_archives:
  "(build_archive entries huffman crc = Inr archive \<longrightarrow>
      le_nat (take 2 (drop 8 archive)) = 2 \<and>
      universal_decode zl archive outdir =
        ([Print (SignatureOk 13360)], Some (UnknownVersion 13360))) \<and>
   (save_archive_v3 v3_entries data_blocks enable_crc = Inr archive' \<longrightarrow>
      le_nat (take 2 (drop 8 archive')) = 3 \<and>
      universal_decode zl archive' outdir =
        ([Print (SignatureOk 13360)], Some (UnknownVersion 13360)))"
  using build_archive_version build_archive_signature save_archive_v3_version
    save_archive_v3_signature universal_decode_L3ARCH04
  by blast

theorem universal_decode_rejects_written_archives_witness:
  "build_archive [(ENTRY_FILE, ''a.txt'', ''hi'')] False False = Inr ex_v2_archive \<and>
   le_nat (take 2 (drop 8 ex_v2_archive)) = 2 \<and>
   universal_decode no_zlib ex_v2_archive out_root =
     ([Print (SignatureOk 13360)], Some (UnknownVersion 13360)) \<and>
   save_archive_v3 [(1, ''a.txt'', 2, 2, [], 0)] [''hi''] False = Inr ex_v3_store_archive \<and>
   le_nat (take 2 (drop 8 ex_v3_store_archive)) = 3 \<and>
   universal_decode no_zlib ex_v3_store_archive out_root =
     ([Print (SignatureOk 13360)], Some (UnknownVersion 13360))"
  using universal_decode_rejects_written_archives
          [of "[(ENTRY_FILE, ''a.txt'', ''hi'')]" False False ex_v2_archive no_zlib out_root
              "[(1, ''a.txt'', 2, 2, [], 0)]" "[''hi'']" False ex_v3_store_archive]
        ex_v2_archive_written ex_v3_store_archive_saved
  by simp

text \<open>What the dispatcher does route on: the two bytes after the six-byte prefix.\<close>

lemma universal_decode_routes_on_bytes_6_7:
  assumes "take 6 archive = ''L3ARCH''" and "length archive \<ge> 8"
  shows "universal_decode zl archive outdir =
           (let version = le_nat (take 2 (drop 6 archive));
                (tr, err) =
                  (if version = 0 then decode_v0 archive outdir
                   else if version = 1 then decode_v1 zl archive outdir
                   else if version = 2 then decode_v2 zl archive outdir
                   else if version = 3 then decode_v3 archive outdir
                   else ([], Some (UnknownVersion version)))
            in (Print (SignatureOk version) # tr, err))"
proof -
  have a: "take 6 (take 8 archive) = ''L3ARCH''"
    using assms by simp
  have b: "drop 6 (take 8 archive) = take 2 (drop 6 archive)"
    by (simp add: drop_take)
  have c: "length (take 2 (drop 6 archive)) = 2"
    using assms by simp
  show ?thesis
    unfolding universal_decode_def Let_def a b using c by simp
qed

lemma v3_body_store:
  "v3_body alg_prot (1, relpath, orig_size, stored_size, [CHR 0x00]) target stored_bytes =
     ([Write target stored_bytes, Print (Restored relpath)], None)"
  by (simp add: v3_body_def crc_report_def)

lemma decode_v3_ex_huffman:
  "decode_v3 ex_v3_huffman_archive out_root =
     ([Mkdir out_root, Mkdir out_root], Some (NameError ''huffman_decode''))"
  by code_simp

text \<open>
  C3. The claim: for a v3 file entry whose service blob starts with 3, \<^verbatim>\<open>decode_v3\<close>
  reconstructs the original bytes from the Huffman table in the rest of the blob (the
  trailing checksum stripped first), and an entry whose blob starts with 0 is written as
  stored. The second half holds (\<open>v3_body_store\<close>). For codec 3 \<^verbatim>\<open>decode_v3\<close> calls
  \<^verbatim>\<open>huffman_decode\<close>, a name that universal_decoder.py neither defines nor imports: every
  such entry ends the decode with NameError before anything of it is written, and the
  entries after it are not decoded.
\<close>

theorem decode_v3_huffman_entry_raises:
  "v3_body alg_prot (1, relpath, orig_size, stored_size, CHR 0x03 # meta_info) target stored_bytes =
     ([], Some (NameError ''huffman_decode'')) \<and>
   entries_loop (v3_body alg_prot) outdir
       ((1, relpath, orig_size, stored_size, CHR 0x03 # meta_info) # rest) f =
     ([Mkdir (path_parent (path_join outdir (path_of_str relpath)))],
      Some (NameError ''huffman_decode''))"
  by (simp add: v3_body_def)

section \<open>Properties of the entry loop: checksums\<close>

lemma entries_loop_step:
  assumes "body (ty, rp, os, ss, sv) (path_join outdir (path_of_str rp)) (take ss f) = (tr, None)"
  shows "entries_loop body outdir ((ty, rp, os, ss, sv) # rest) f =
           (Mkdir (path_parent (path_join outdir (path_of_str rp))) # tr
              @ fst (entries_loop body outdir rest (drop ss f)),
            snd (entries_loop body outdir rest (drop ss f)))"
  using assms by (simp add: Let_def split: prod.splits)

lemma ex_ab_encoded: "huffman_encode ''ab'' = Inr (ex_ab_payload, ex_ab_service)"
  by code_simp




lemma entries_loop_no_message:
  assumes "\<forall>e t s. m \<notin> set (fst (body e t s))" and "\<forall>q. m \<noteq> Mkdir q"
  shows "m \<notin> set (fst (entries_loop body outdir es f))"
proof (induction es arbitrary: f)
  case Nil
  then show ?case by simp
next
  case (Cons e es)
  obtain ty rp os ss sv where e: "e = (ty, rp, os, ss, sv)" by (cases e) auto
  obtain tr err where b:
    "body (ty, rp, os, ss, sv) (path_join outdir (path_of_str rp)) (take ss f) = (tr, err)"
    by (cases "body (ty, rp, os, ss, sv) (path_join outdir (path_of_str rp)) (take ss f)")
  have tr: "m \<notin> set tr"
    using assms(1) b by (metis fst_conv)
  have ih: "m \<notin> set (fst (entries_loop body outdir es (drop ss f)))"
    using Cons.IH by blast
  show ?case
    using tr ih assms(2) by (cases err) (simp_all add: e b Let_def case_prod_beta)
qed

lemma v2_body_unchecked:
  assumes "alg_noctx \<noteq> 3"
  shows "v2_body zl alg_noctx alg_prot (ty, relpath, orig_size, stored_size, service) target stored_bytes =
     (case (if alg_noctx = 2 then zl stored_bytes else Inr stored_bytes) of
        Inl e \<Rightarrow> ([], Some e)
      | Inr raw \<Rightarrow> ([Write target raw, Print (Restored relpath)], None))"
  using assms by (simp add: v2_body_def split: sum.splits)

lemma extract_body_unchecked:
  assumes "alg_noctx \<noteq> 3"
  shows "extract_body alg_noctx alg_prot (ty, relpath, orig_size, stored_size, service) target stored_bytes =
     (if ty = 1 then ([Write target stored_bytes, Print (Restored relpath)], None) else ([], None))"
  using assms by (simp add: extract_body_def)

lemma v2_body_no_mismatch:
  "alg_noctx \<noteq> 3 \<Longrightarrow> Print (CrcMismatch r) \<notin> set (fst (v2_body zl alg_noctx alg_prot e t s))"
  by (cases e) (auto simp: v2_body_unchecked split: sum.splits)

lemma extract_body_no_mismatch:
  "alg_noctx \<noteq> 3 \<Longrightarrow> Print (CrcMismatch r) \<notin> set (fst (extract_body alg_noctx alg_prot e t s))"
  by (cases e) (auto simp: extract_body_unchecked)

text \<open>
  C10. The claim: in the version-2 decode paths (\<^verbatim>\<open>extract_archive\<close> and \<^verbatim>\<open>decode_v2\<close>) the
  checksum is verified only when the codec is Huffman (3); a protected entry under the
  store codec (0) or the zlib codec (2) is written without its stored checksum ever being
  compared, also with protection tag 11. For a codec other than 3 the outcome of an entry
  is the stored bytes (from \<^verbatim>\<open>decode_v2\<close> with codec 2: what \<^verbatim>\<open>zlib.decompress\<close> returns, or
  its exception) written to the target, whatever the service blob and the protection tag
  are, and no mismatch line appears anywhere in the decode of the table. That the
  comparison is made for codec 3 is the theorem of C9.
\<close>

theorem v2_checksum_only_verified_for_huffman:
  "alg_noctx \<noteq> 3 \<longrightarrow>
     v2_body zl alg_noctx alg_prot (ty, relpath, orig_size, stored_size, service) target stored_bytes =
       (case (if alg_noctx = 2 then zl stored_bytes else Inr stored_bytes) of
          Inl e \<Rightarrow> ([], Some e)
        | Inr raw \<Rightarrow> ([Write target raw, Print (Restored relpath)], None)) \<and>
     extract_body alg_noctx alg_prot (ENTRY_FILE, relpath, orig_size, stored_size, service)
         target stored_bytes =
       ([Write target stored_bytes, Print (Restored relpath)], None) \<and>
     Print (CrcMismatch r) \<notin> set (fst (entries_loop (v2_body zl alg_noctx alg_prot) outdir es f)) \<and>
     Print (CrcMismatch r) \<notin> set (fst (entries_loop (extract_body alg_noctx alg_prot) outdir es f))"
proof (intro impI conjI)
  assume a: "alg_noctx \<noteq> 3"
  show "v2_body zl alg_noctx alg_prot (ty, relpath, orig_size, stored_size, service) target stored_bytes =
       (case (if alg_noctx = 2 then zl stored_bytes else Inr stored_bytes) of
          Inl e \<Rightarrow> ([], Some e)
        | Inr raw \<Rightarrow> ([Write target raw, Print (Restored relpath)], None))"
    by (rule v2_body_unchecked[OF a])
  show "extract_body alg_noctx alg_prot (ENTRY_FILE, relpath, orig_size, stored_size, service)
         target stored_bytes =
       ([Write target stored_bytes, Print (Restored relpath)], None)"
    by (simp add: extract_body_unchecked[OF a])
  show "Print (CrcMismatch r) \<notin> set (fst (entries_loop (v2_body zl alg_noctx alg_prot) outdir es f))"
    using v2_body_no_mismatch[OF a] by (intro entries_loop_no_message) auto
  show "Print (CrcMismatch r) \<notin> set (fst (entries_loop (extract_body alg_noctx alg_prot) outdir es f))"
    using extract_body_no_mismatch[OF a] by (intro entries_loop_no_message) auto
qed

text \<open>The theorem at a stored entry and at a zlib entry, both with protection 11 and a
  checksum field that is not the CRC32 of the data.\<close>

theorem v2_checksum_only_verified_for_huffman_witness:
  "crc32 ''hi'' \<noteq> le_nat ex_zero_crc \<and>
   v2_body no_zlib 0 11 (1, ''a.txt'', 2, 2, ex_zero_crc) (Path ''/'' [''out'', ''a.txt'']) ''hi'' =
     ([Write (Path ''/'' [''out'', ''a.txt'']) ''hi'', Print (Restored ''a.txt'')], None) \<and>
   v2_body stored_zlib 2 11 (1, ''a.txt'', 2, 4, ex_zero_crc) (Path ''/'' [''out'', ''a.txt'']) ''zzhi'' =
     ([Write (Path ''/'' [''out'', ''a.txt'']) ''hi'', Print (Restored ''a.txt'')], None) \<and>
   extract_body 0 11 (1, ''a.txt'', 2, 2, ex_zero_crc) (Path ''/'' [''out'', ''a.txt'']) ''hi'' =
     ([Write (Path ''/'' [''out'', ''a.txt'']) ''hi'', Print (Restored ''a.txt'')], None) \<and>
   Print (CrcMismatch ''a.txt'') \<notin> set (fst (entries_loop (v2_body no_zlib 0 11) out_root
       [(1, ''a.txt'', 2, 2, ex_zero_crc)] ''hi'')) \<and>
   Print (CrcMismatch ''a.txt'') \<notin> set (fst (entries_loop (extract_body 0 11) out_root
       [(1, ''a.txt'', 2, 2, ex_zero_crc)] ''hi''))"
proof -
  have n0: "(0::nat) \<noteq> 3" and n2: "(2::nat) \<noteq> 3" by simp_all
  have c: "crc32 ''hi'' \<noteq> le_nat ex_zero_crc" by code_simp
  note t0 = v2_checksum_only_verified_for_huffman
      [where alg_noctx = 0 and zl = no_zlib and alg_prot = 11 and ty = 1 and relpath = "''a.txt''"
         and orig_size = 2 and stored_size = 2 and service = ex_zero_crc
         and target = "Path ''/'' [''out'', ''a.txt'']" and stored_bytes = "''hi''"
         and r = "''a.txt''" and outdir = out_root
         and es = "[(1, ''a.txt'', 2, 2, ex_zero_crc)]" and f = "''hi''", rule_format, OF n0]
  note t2 = v2_checksum_only_verified_for_huffman
      [where alg_noctx = 2 and zl = stored_zlib and alg_prot = 11 and ty = 1 and relpath = "''a.txt''"
         and orig_size = 2 and stored_size = 4 and service = ex_zero_crc
         and target = "Path ''/'' [''out'', ''a.txt'']" and stored_bytes = "''zzhi''",
       rule_format, OF n2, THEN conjunct1]
  have z: "stored_zlib ''zzhi'' = Inr ''hi''" by (simp add: stored_zlib_def)
  show ?thesis
    using c t0 t2 by (simp add: z)
qed

section \<open>Properties of the entry loop: output paths\<close>

lemma ex_traversal_archive_written:
  "build_archive [(ENTRY_FILE, ''../b'', ''abba'')] False False = Inr ex_traversal_archive"
  by code_simp













end
